theory Spec2Isabelle
  imports Complex_Main "HOL-Library.Multiset"
begin

section \<open>Data model\<close>

text \<open>
  A JavaScript \<open>number\<close> is modelled as an exact \<^typ>\<open>real\<close>: the arithmetic of the
  reconciliation engine is the arithmetic of the reals, without the rounding of IEEE
  doubles and without the infinities (the one NaN that a claim depends on, the time of
  an invalid date, is written out below). \<open>number | null\<close> is
  \<^typ>\<open>real option\<close>, \<open>string | null\<close> is \<^typ>\<open>string option\<close>.
\<close>

text \<open>
  The types are those of \<open>@/types/aqi\<close>, which \<open>aqi-utils.ts\<close> imports: the string
  literal unions \<open>DataSource\<close> and \<open>FreshnessStatus\<close>, the inline unions of the fields
  \<open>confidence\<close> and \<open>level\<close>, and the interfaces \<open>Pollutant\<close>, \<open>AQIReading\<close>,
  \<open>AgreementAnalysis\<close> and \<open>DerivedAQI\<close>, field by field. The optional \<open>notes\<close> is an
  option. The two inline unions share the literals \<open>high\<close> and \<open>low\<close>, so their
  constructors carry a prefix.
\<close>

datatype DataSource = GOVERNMENT | INTERNATIONAL | HISTORICAL | IOT_SENSOR

datatype FreshnessStatus = Fresh | Aging | Stale | Unavailable

datatype ConfidenceLevel = ConfHigh | ConfMedium | ConfLow | ConfUncalibrated

datatype AgreementLevel = LevelHigh | LevelPartial | LevelOutlier | LevelInsufficient

record Pollutant =
  pname :: string
  pvalue :: "real option"
  punit :: string

record AQIReading =
  source :: DataSource
  aqi :: "real option"
  pollutants :: "Pollutant list"
  timestamp :: "string option"
  freshness :: FreshnessStatus
  confidence :: ConfidenceLevel
  "notes" :: "string option"

record AgreementAnalysis =
  level :: AgreementLevel
  spread :: "real option"
  explanation :: string

record DerivedAQI =
  "value" :: "real option"
  confidence :: real
  sources :: "DataSource list"
  methodology :: string

text \<open>A DataSource is a string literal type in the source; this is the string it is.\<close>

fun sourceName :: "DataSource \<Rightarrow> string" where
  "sourceName GOVERNMENT = ''GOVERNMENT''"
| "sourceName INTERNATIONAL = ''INTERNATIONAL''"
| "sourceName HISTORICAL = ''HISTORICAL''"
| "sourceName IOT_SENSOR = ''IOT_SENSOR''"

section \<open>JavaScript built-ins\<close>

text \<open>\<open>Math.round\<close>: the nearest integer, a half rounded towards plus infinity.\<close>

definition Math_round :: "real \<Rightarrow> real" where
  "Math_round x = of_int \<lfloor>x + 1 / 2\<rfloor>"

text \<open>
  \<open>Math.max(...xs)\<close> and \<open>Math.min(...xs)\<close> on a non-empty array. On the empty array
  JavaScript gives minus and plus infinity, which \<^typ>\<open>real\<close> does not have; the engine
  calls both on arrays of at least two values only.
\<close>

fun Math_max :: "real list \<Rightarrow> real" where
  "Math_max (x # xs) = fold max xs x"

fun Math_min :: "real list \<Rightarrow> real" where
  "Math_min (x # xs) = fold min xs x"

text \<open>\<open>Array.prototype.join\<close> on an array of strings.\<close>

fun join :: "string \<Rightarrow> string list \<Rightarrow> string" where
  "join sep [] = []"
| "join sep [s] = s"
| "join sep (s # t # ss) = s @ sep @ join sep (t # ss)"

section \<open>Freshness classifier\<close>

text \<open>
  \<open>calculateFreshness\<close> reads the wall clock and parses the timestamp with \<open>new Date\<close>.
  Both are parameters here: \<open>now\<close> is \<open>new Date().getTime()\<close> in milliseconds, and
  \<open>getTime s\<close> is \<open>new Date(s).getTime()\<close>, \<open>None\<close> standing for the NaN of an invalid
  date. \<open>!timestamp\<close> holds of \<open>null\<close> and of the empty string. Every comparison with NaN
  is false, so an invalid date falls through to the last return.
\<close>

definition calculateFreshness ::
  "(string \<Rightarrow> real option) \<Rightarrow> real \<Rightarrow> string option \<Rightarrow> FreshnessStatus" where
  "calculateFreshness getTime now ts =
     (case ts of
        None \<Rightarrow> Unavailable
      | Some s \<Rightarrow>
          if s = [] then Unavailable
          else (case getTime s of
                  None \<Rightarrow> Stale
                | Some dataTime \<Rightarrow>
                    let hoursDiff = (now - dataTime) / (1000 * 60 * 60)
                    in if hoursDiff < 1 then Fresh
                       else if hoursDiff < 6 then Aging
                       else Stale))"

section \<open>Scale normalizer\<close>

fun normalizeAQI :: "real \<Rightarrow> DataSource \<Rightarrow> real" where
  "normalizeAQI v INTERNATIONAL = Math_round (v * 0.95)"
| "normalizeAQI v GOVERNMENT = v"
| "normalizeAQI v HISTORICAL = v"
| "normalizeAQI v IOT_SENSOR = v"

section \<open>Agreement analyzer\<close>

text \<open>
  The template literals print a number; \<open>str\<close> is that conversion of a number to a string.
  \<open>r.aqi as number\<close> is \<^term>\<open>the (aqi r)\<close>: the filter has kept readings with an aqi only.
\<close>

definition analyzeAgreement :: "(real \<Rightarrow> string) \<Rightarrow> AQIReading list \<Rightarrow> AgreementAnalysis" where
  "analyzeAgreement str readings =
     (let validReadings = filter (\<lambda>r. aqi r \<noteq> None \<and> freshness r \<noteq> Unavailable) readings
      in if length validReadings = 0 then
           \<lparr>level = LevelInsufficient, spread = None,
            explanation = ''No valid data available from any source.''\<rparr>
         else if length validReadings = 1 then
           \<lparr>level = LevelInsufficient, spread = None,
            explanation = ''Only '' @ sourceName (source (validReadings ! 0))
                          @ '' data available. Cannot cross-validate.''\<rparr>
         else
           let aqiValues = map (\<lambda>r. the (aqi r)) validReadings;
               mx = Math_max aqiValues;
               mn = Math_min aqiValues;
               spread = mx - mn;
               mean = foldl (\<lambda>a b. a + b) 0 aqiValues / real (length aqiValues);
               variance = foldl (\<lambda>sum val. sum + (val - mean) ^ 2) 0 aqiValues
                          / real (length aqiValues);
               stdDev = sqrt variance
           in if spread \<le> 20 \<and> stdDev \<le> 10 then
                \<lparr>level = LevelHigh, spread = Some spread,
                 explanation = ''Sources agree within '' @ str spread
                               @ '' AQI points. High confidence in data.''\<rparr>
              else if spread \<le> 50 \<and> stdDev \<le> 25 then
                \<lparr>level = LevelPartial, spread = Some spread,
                 explanation = ''Sources differ by '' @ str spread
                   @ '' AQI points. Possible local variations or measurement timing differences.''\<rparr>
              else
                \<lparr>level = LevelOutlier, spread = Some spread,
                 explanation = ''Significant disagreement (spread: '' @ str spread
                   @ ''). Possible sensor calibration issues, local hotspots, or data staleness.''\<rparr>)"

section \<open>Derived-AQI aggregator\<close>

text \<open>
  The weight that the callback of \<open>validReadings.map\<close> gives one reading: it starts at 1
  and is multiplied in three \<open>switch\<close> statements. None of them has a default, so a
  freshness of \<open>unavailable\<close> leaves the weight as it is.
\<close>

definition readingWeight :: "AQIReading \<Rightarrow> real" where
  "readingWeight r =
     (let weight = 1;
          weight = (case source r of
                      GOVERNMENT \<Rightarrow> weight * 1.2
                    | INTERNATIONAL \<Rightarrow> weight * 1.0
                    | HISTORICAL \<Rightarrow> weight * 0.6
                    | IOT_SENSOR \<Rightarrow> weight * 0.3);
          weight = (case freshness r of
                      Fresh \<Rightarrow> weight * 1.0
                    | Aging \<Rightarrow> weight * 0.7
                    | Stale \<Rightarrow> weight * 0.4
                    | Unavailable \<Rightarrow> weight);
          weight = (case AQIReading.confidence r of
                      ConfHigh \<Rightarrow> weight * 1.0
                    | ConfMedium \<Rightarrow> weight * 0.8
                    | ConfLow \<Rightarrow> weight * 0.5
                    | ConfUncalibrated \<Rightarrow> weight * 0.3)
      in weight)"

text \<open>
  \<open>str\<close> prints a number in a template literal and \<open>toFixed2\<close> is \<open>toFixed(2)\<close>.
  A weighted reading \<open>{reading, weight}\<close> is a pair.
\<close>

definition calculateDerivedAQI ::
  "(real \<Rightarrow> string) \<Rightarrow> (real \<Rightarrow> string) \<Rightarrow> AQIReading list \<Rightarrow> DerivedAQI" where
  "calculateDerivedAQI str toFixed2 readings =
     (let validReadings = filter (\<lambda>r. aqi r \<noteq> None \<and> freshness r \<noteq> Unavailable) readings
      in if length validReadings = 0 then
           \<lparr>value = None, confidence = 0, sources = [],
            methodology = ''No valid data available.''\<rparr>
         else
           let weightedReadings = map (\<lambda>r. (r, readingWeight r)) validReadings;
               totalWeight = foldl (\<lambda>sum wr. sum + snd wr) 0 weightedReadings;
               weightedSum = foldl (\<lambda>sum wr. sum + the (aqi (fst wr)) * snd wr) 0 weightedReadings;
               derivedValue = Math_round (weightedSum / totalWeight);
               maxPossibleWeight = real (length validReadings) * 1.2 * 1.0 * 1.0;
               confidence = min 100 (Math_round ((totalWeight / maxPossibleWeight) * 100));
               sourceList = map source validReadings;
               weightExplanations =
                 join '', '' (map (\<lambda>wr. sourceName (source (fst wr)) @ '': '' @ toFixed2 (snd wr))
                                weightedReadings)
           in \<lparr>value = Some derivedValue, confidence = confidence, sources = sourceList,
               methodology = ''Weighted average using '' @ str (real (length validReadings))
                 @ '' source(s). Weights: ['' @ weightExplanations
                 @ '']. Higher weights given to government data and fresh readings.''\<rparr>)"

section \<open>Notions of the specification\<close>

text \<open>A reading is usable when it has an aqi and its freshness is not \<open>unavailable\<close>.\<close>

definition usable :: "AQIReading \<Rightarrow> bool" where
  "usable r \<longleftrightarrow> aqi r \<noteq> None \<and> freshness r \<noteq> Unavailable"

text \<open>The aqi values of the usable readings, in input order.\<close>

definition usableAqi :: "AQIReading list \<Rightarrow> real list" where
  "usableAqi readings = map (\<lambda>r. the (aqi r)) (filter usable readings)"




text \<open>The weights of the usable readings, in input order.\<close>

definition usableWeights :: "AQIReading list \<Rightarrow> real list" where
  "usableWeights readings = map readingWeight (filter usable readings)"

text \<open>
  The population standard deviation of a list of values: the square root of the mean
  squared distance from the mean.
\<close>

definition populationStdDev :: "real list \<Rightarrow> real" where
  "populationStdDev vs =
     (let n = real (length vs);
          mean = sum_list vs / n
      in sqrt (sum_list (map (\<lambda>v. (v - mean) ^ 2) vs) / n))"

text \<open>
  The last step of \<open>analyzeAgreement\<close> on its own: the result as a function of the
  spread and the standard deviation. The auxiliary facts below are stated with it.
\<close>

definition agreementFor :: "(real \<Rightarrow> string) \<Rightarrow> real \<Rightarrow> real \<Rightarrow> AgreementAnalysis" where
  "agreementFor str sp sd =
     (if sp \<le> 20 \<and> sd \<le> 10 then
        \<lparr>level = LevelHigh, spread = Some sp,
         explanation = ''Sources agree within '' @ str sp
                       @ '' AQI points. High confidence in data.''\<rparr>
      else if sp \<le> 50 \<and> sd \<le> 25 then
        \<lparr>level = LevelPartial, spread = Some sp,
         explanation = ''Sources differ by '' @ str sp
           @ '' AQI points. Possible local variations or measurement timing differences.''\<rparr>
      else
        \<lparr>level = LevelOutlier, spread = Some sp,
         explanation = ''Significant disagreement (spread: '' @ str sp
           @ ''). Possible sensor calibration issues, local hotspots, or data staleness.''\<rparr>)"

section \<open>Example readings\<close>

text \<open>
  Readings of the shapes the source adapters produce: the three of the Delhi scenario, two
  IoT entries, and two readings that are not usable.
\<close>

definition ex_government :: AQIReading where
  "ex_government = \<lparr>source = GOVERNMENT, aqi = Some 278, pollutants = [],
     timestamp = Some ''2025-01-01T09:00:00Z'', freshness = Fresh,
     AQIReading.confidence = ConfHigh, notes = None\<rparr>"

definition ex_international :: AQIReading where
  "ex_international = \<lparr>source = INTERNATIONAL, aqi = Some 252, pollutants = [],
     timestamp = Some ''2025-01-01T06:00:00Z'', freshness = Aging,
     AQIReading.confidence = ConfHigh, notes = None\<rparr>"

definition ex_historical :: AQIReading where
  "ex_historical = \<lparr>source = HISTORICAL, aqi = Some 285, pollutants = [],
     timestamp = Some ''2025-01-01T08:00:00Z'', freshness = Stale,
     AQIReading.confidence = ConfMedium, notes = None\<rparr>"

definition ex_iot :: AQIReading where
  "ex_iot = \<lparr>source = IOT_SENSOR, aqi = Some 150, pollutants = [],
     timestamp = Some ''2025-01-01T09:00:00Z'', freshness = Fresh,
     AQIReading.confidence = ConfUncalibrated, notes = None\<rparr>"

definition ex_iot_stale :: AQIReading where
  "ex_iot_stale = \<lparr>source = IOT_SENSOR, aqi = Some 150, pollutants = [],
     timestamp = Some ''2025-01-01T01:00:00Z'', freshness = Stale,
     AQIReading.confidence = ConfUncalibrated, notes = None\<rparr>"

definition ex_failed :: AQIReading where
  "ex_failed = \<lparr>source = INTERNATIONAL, aqi = None, pollutants = [],
     timestamp = None, freshness = Unavailable,
     AQIReading.confidence = ConfLow, notes = Some ''Failed to fetch OpenAQ data''\<rparr>"

definition ex_no_time :: AQIReading where
  "ex_no_time = \<lparr>source = GOVERNMENT, aqi = Some 120, pollutants = [],
     timestamp = None, freshness = Unavailable,
     AQIReading.confidence = ConfHigh, notes = None\<rparr>"

definition ex_low :: AQIReading where
  "ex_low = \<lparr>source = GOVERNMENT, aqi = Some 100, pollutants = [],
     timestamp = Some ''2025-01-01T09:00:00Z'', freshness = Fresh,
     AQIReading.confidence = ConfHigh, notes = None\<rparr>"

definition ex_near :: AQIReading where
  "ex_near = \<lparr>source = HISTORICAL, aqi = Some 120, pollutants = [],
     timestamp = Some ''2025-01-01T08:00:00Z'', freshness = Stale,
     AQIReading.confidence = ConfMedium, notes = None\<rparr>"

text \<open>A printer of numbers for the examples; no result below depends on it.\<close>

definition ex_str :: "real \<Rightarrow> string" where
  "ex_str x = ''n''"

lemmas ex_defs = ex_government_def ex_international_def ex_historical_def ex_iot_def
  ex_iot_stale_def ex_failed_def ex_no_time_def ex_low_def ex_near_def

section \<open>Auxiliary facts\<close>

lemma valid_filter_usable:
  "filter (\<lambda>r. aqi r \<noteq> None \<and> freshness r \<noteq> Unavailable) rs = filter usable rs"
  by (rule filter_cong) (simp_all add: usable_def)

lemma foldl_plus_sum_list:
  "foldl (\<lambda>sum x. sum + f x) a xs = a + sum_list (map f xs)"
  by (induction xs arbitrary: a) (simp_all add: add.assoc)

lemma readingWeight_lower:
  "freshness r \<noteq> Unavailable \<Longrightarrow> 36 / 1000 \<le> readingWeight r"
  by (cases "source r"; cases "freshness r"; cases "AQIReading.confidence r")
     (simp_all add: readingWeight_def)

lemma readingWeight_pos: "0 < readingWeight r"
  by (cases "source r"; cases "freshness r"; cases "AQIReading.confidence r")
     (simp_all add: readingWeight_def)

lemma sum_list_map_lower:
  "(\<And>x. x \<in> set xs \<Longrightarrow> c \<le> f x) \<Longrightarrow> c * real (length xs) \<le> sum_list (map f xs)"
  by (induction xs) (auto simp add: algebra_simps intro: add_mono)

lemma derived_confidence:
  assumes "filter usable rs \<noteq> []"
  shows "DerivedAQI.confidence (calculateDerivedAQI str toFixed2 rs)
         = min 100 (Math_round (sum_list (usableWeights rs)
                                  / (real (length (filter usable rs)) * 1.2) * 100))"
  using assms unfolding calculateDerivedAQI_def valid_filter_usable usableWeights_def
  by (simp add: Let_def foldl_plus_sum_list comp_def)

lemma derived_value:
  assumes "filter usable rs \<noteq> []"
  shows "value (calculateDerivedAQI str toFixed2 rs)
         = Some (Math_round (sum_list (map (\<lambda>r. the (aqi r) * readingWeight r) (filter usable rs))
                              / sum_list (usableWeights rs)))"
  using assms unfolding calculateDerivedAQI_def valid_filter_usable usableWeights_def
  by (simp add: Let_def foldl_plus_sum_list comp_def)

lemma Math_round_mono: "x \<le> y \<Longrightarrow> Math_round x \<le> Math_round y"
  by (simp add: Math_round_def floor_mono)

lemma Math_round_of_int: "Math_round (of_int n) = of_int n"
proof -
  have "\<lfloor>(of_int n :: real) + 1 / 2\<rfloor> = n" by linarith
  then show ?thesis by (simp add: Math_round_def)
qed

lemma Math_round_eq_round: "Math_round x = of_int (round x)"
  by (simp add: Math_round_def round_def)


lemma usableWeights_sum_lower:
  "36 / 1000 * real (length (filter usable rs)) \<le> sum_list (usableWeights rs)"
  unfolding usableWeights_def
proof (rule sum_list_map_lower)
  fix x
  assume "x \<in> set (filter usable rs)"
  then have "freshness x \<noteq> Unavailable"
    by (simp add: usable_def)
  then show "36 / 1000 \<le> readingWeight x"
    by (rule readingWeight_lower)
qed

lemma confidence_ratio_lower:
  assumes "filter usable rs \<noteq> []"
  shows "3 \<le> sum_list (usableWeights rs) / (real (length (filter usable rs)) * 1.2) * 100"
proof -
  let ?n = "real (length (filter usable rs))"
  have n: "0 < ?n" using assms by simp
  have "3 * (?n * 1.2) \<le> sum_list (usableWeights rs) * 100"
    using usableWeights_sum_lower [of rs] by simp
  then have "3 \<le> sum_list (usableWeights rs) * 100 / (?n * 1.2)"
    using n by (simp add: pos_le_divide_eq)
  then show ?thesis by simp
qed

lemma confidence_lower:
  assumes "filter usable rs \<noteq> []"
  shows "3 \<le> DerivedAQI.confidence (calculateDerivedAQI str toFixed2 rs)"
proof -
  have "Math_round (of_int 3)
        \<le> Math_round (sum_list (usableWeights rs)
                         / (real (length (filter usable rs)) * 1.2) * 100)"
    using confidence_ratio_lower [OF assms] by (intro Math_round_mono) simp
  then show ?thesis
    unfolding derived_confidence [OF assms] Math_round_of_int by simp
qed

lemma sum_list_pos_weights:
  "xs \<noteq> [] \<Longrightarrow> 0 < sum_list (map readingWeight xs)"
proof (induction xs)
  case Nil
  then show ?case by simp
next
  case (Cons x xs)
  have "0 \<le> sum_list (map readingWeight xs)"
    by (rule sum_list_nonneg) (auto simp add: less_imp_le readingWeight_pos)
  with readingWeight_pos [of x] show ?case by simp
qed

lemma weighted_sum_upper:
  "(\<And>x. x \<in> set xs \<Longrightarrow> a x \<le> M) \<Longrightarrow>
     sum_list (map (\<lambda>x. a x * readingWeight x) xs) \<le> M * sum_list (map readingWeight xs)"
proof (induction xs)
  case Nil
  then show ?case by simp
next
  case (Cons x xs)
  have "a x * readingWeight x \<le> M * readingWeight x"
    using Cons.prems [of x] readingWeight_pos [of x] by (simp add: mult_right_mono)
  moreover have "sum_list (map (\<lambda>x. a x * readingWeight x) xs)
                 \<le> M * sum_list (map readingWeight xs)"
    using Cons by simp
  ultimately show ?case by (simp add: algebra_simps)
qed

lemma weighted_sum_lower:
  "(\<And>x. x \<in> set xs \<Longrightarrow> m \<le> a x) \<Longrightarrow>
     m * sum_list (map readingWeight xs) \<le> sum_list (map (\<lambda>x. a x * readingWeight x) xs)"
proof (induction xs)
  case Nil
  then show ?case by simp
next
  case (Cons x xs)
  have "m * readingWeight x \<le> a x * readingWeight x"
    using Cons.prems [of x] readingWeight_pos [of x] by (simp add: mult_right_mono)
  moreover have "m * sum_list (map readingWeight xs)
                 \<le> sum_list (map (\<lambda>x. a x * readingWeight x) xs)"
    using Cons by simp
  ultimately show ?case by (simp add: algebra_simps)
qed

lemma Math_round_Ints: "x \<in> \<int> \<Longrightarrow> Math_round x = x"
  by (auto simp add: Ints_def Math_round_of_int)

lemma Math_max_eq_Max: "Math_max vs = Max (set vs)" if "vs \<noteq> []"
proof (cases vs)
  case Nil
  with that show ?thesis by simp
next
  case (Cons x xs)
  have "Max (set (x # xs)) = fold max xs x"
    by (rule Max.set_eq_fold)
  with Cons show ?thesis by simp
qed

lemma Math_min_eq_Min: "Math_min vs = Min (set vs)" if "vs \<noteq> []"
proof (cases vs)
  case Nil
  with that show ?thesis by simp
next
  case (Cons x xs)
  have "Min (set (x # xs)) = fold min xs x"
    by (rule Min.set_eq_fold)
  with Cons show ?thesis by simp
qed

lemma foldl_plus_id: "foldl (\<lambda>a b. a + b) (0::real) vs = sum_list vs"
  using foldl_plus_sum_list [of "\<lambda>x. x" 0 vs] by simp

lemma analyzeAgreement_many:
  assumes "2 \<le> length (filter usable rs)"
  shows "analyzeAgreement str rs
         = agreementFor str (Max (set (usableAqi rs)) - Min (set (usableAqi rs)))
             (populationStdDev (usableAqi rs))"
proof -
  have ne: "usableAqi rs \<noteq> []"
  proof
    assume "usableAqi rs = []"
    then have "length (filter usable rs) = 0"
      by (simp add: usableAqi_def)
    with assms show False by simp
  qed
  have len: "length (usableAqi rs) = length (filter usable rs)"
    by (simp add: usableAqi_def)
  have l0: "length (filter usable rs) \<noteq> 0" and l1: "length (filter usable rs) \<noteq> 1"
    using assms by linarith+
  show ?thesis
    unfolding analyzeAgreement_def valid_filter_usable Let_def
      usableAqi_def [symmetric] foldl_plus_id foldl_plus_sum_list
      Math_max_eq_Max [OF ne] Math_min_eq_Min [OF ne]
      agreementFor_def populationStdDev_def len
    using l0 l1 by simp
qed

lemma populationStdDev_mset:
  assumes "mset vs = mset ws"
  shows "populationStdDev vs = populationStdDev ws"
proof -
  have s: "sum_list vs = sum_list ws"
    using assms by (metis sum_mset_sum_list)
  have l: "length vs = length ws"
    using assms by (metis size_mset)
  have "sum_list (map f vs) = sum_list (map f ws)" for f :: "real \<Rightarrow> real"
    using assms by (metis mset_map sum_mset_sum_list)
  then show ?thesis
    by (simp add: populationStdDev_def s l)
qed

lemma usableAqi_mset:
  assumes "mset rs = mset rs'"
  shows "mset (usableAqi rs) = mset (usableAqi rs')"
proof -
  have "mset (filter usable rs) = mset (filter usable rs')"
    using assms by (simp add: mset_filter)
  then have "image_mset (\<lambda>r. the (aqi r)) (mset (filter usable rs))
             = image_mset (\<lambda>r. the (aqi r)) (mset (filter usable rs'))"
    by simp
  then show ?thesis
    unfolding usableAqi_def mset_map .
qed

lemma sqrt_le_iff_square: "0 \<le> b \<Longrightarrow> sqrt x \<le> b \<longleftrightarrow> x \<le> b ^ 2"
  by (metis real_sqrt_le_iff real_sqrt_abs abs_of_nonneg)

section \<open>Freshness classifier: claim C4\<close>

text \<open>
  C4. \<open>calculateFreshness\<close> returns \<open>unavailable\<close> for an absent timestamp. For a
  timestamp that is present and parses to the time \<open>t\<close>, with \<open>h = (now - t)\<close> in hours, it
  returns \<open>fresh\<close> when \<open>h < 1\<close>, \<open>aging\<close> when \<open>1 \<le> h < 6\<close> and \<open>stale\<close> when \<open>6 \<le> h\<close>;
  so \<open>h = 1\<close> is aging and \<open>h = 6\<close> is stale.
\<close>

theorem calculateFreshness_buckets:
  "calculateFreshness getTime now None = Unavailable
   \<and> (s \<noteq> [] \<and> getTime s = Some t \<longrightarrow>
        ((now - t) / 3600000 < 1 \<longrightarrow> calculateFreshness getTime now (Some s) = Fresh)
      \<and> (1 \<le> (now - t) / 3600000 \<and> (now - t) / 3600000 < 6 \<longrightarrow>
           calculateFreshness getTime now (Some s) = Aging)
      \<and> (6 \<le> (now - t) / 3600000 \<longrightarrow> calculateFreshness getTime now (Some s) = Stale))"
  by (simp add: calculateFreshness_def Let_def)

theorem calculateFreshness_buckets_witness:
  "calculateFreshness (\<lambda>s. Some 0) 3600000 (Some ''2025-01-01T09:00:00Z'') = Aging
   \<and> calculateFreshness (\<lambda>s. Some 0) 21600000 (Some ''2025-01-01T09:00:00Z'') = Stale
   \<and> calculateFreshness (\<lambda>s. Some 0) 3599999 (Some ''2025-01-01T09:00:00Z'') = Fresh"
  using calculateFreshness_buckets [of "\<lambda>s. Some 0" 3600000 "''2025-01-01T09:00:00Z''" 0]
        calculateFreshness_buckets [of "\<lambda>s. Some 0" 21600000 "''2025-01-01T09:00:00Z''" 0]
        calculateFreshness_buckets [of "\<lambda>s. Some 0" 3599999 "''2025-01-01T09:00:00Z''" 0]
  by simp

section \<open>Agreement analyzer: claim C6\<close>

text \<open>
  C6. With fewer than two usable readings \<open>analyzeAgreement\<close> returns the level
  \<open>insufficient\<close> and a null spread; it returns on every input.
\<close>

theorem analyzeAgreement_insufficient:
  assumes "length (filter usable readings) < 2"
  shows "level (analyzeAgreement str readings) = LevelInsufficient
     \<and> spread (analyzeAgreement str readings) = None"
proof -
  from assms consider "length (filter usable readings) = 0"
    | "length (filter usable readings) = 1"
    by linarith
  then show ?thesis
    unfolding analyzeAgreement_def valid_filter_usable
    by cases (simp_all add: Let_def)
qed

text \<open>
  One usable reading beside a failed one, and no reading at all.
\<close>

theorem analyzeAgreement_insufficient_witness:
  "length (filter usable [ex_failed, ex_government]) < 2
   \<and> level (analyzeAgreement ex_str [ex_failed, ex_government]) = LevelInsufficient
   \<and> spread (analyzeAgreement ex_str [ex_failed, ex_government]) = None
   \<and> level (analyzeAgreement ex_str []) = LevelInsufficient"
  using analyzeAgreement_insufficient [of "[ex_failed, ex_government]" ex_str]
        analyzeAgreement_insufficient [of "[]" ex_str]
  by (simp add: usable_def ex_defs)

section \<open>Aggregator without data: claim C7\<close>

text \<open>
  C7. With no usable reading (also when every reading has a null aqi or the freshness
  \<open>unavailable\<close>) \<open>calculateDerivedAQI\<close> returns a null value, the confidence 0 and an
  empty list of sources.
\<close>

theorem calculateDerivedAQI_no_data:
  "filter usable readings = [] \<Longrightarrow>
     value (calculateDerivedAQI str toFixed2 readings) = None
     \<and> DerivedAQI.confidence (calculateDerivedAQI str toFixed2 readings) = 0
     \<and> sources (calculateDerivedAQI str toFixed2 readings) = []"
  unfolding calculateDerivedAQI_def valid_filter_usable by simp

theorem calculateDerivedAQI_no_data_witness:
  "filter usable [ex_failed, ex_no_time] = []
   \<and> value (calculateDerivedAQI ex_str ex_str [ex_failed, ex_no_time]) = None
   \<and> DerivedAQI.confidence (calculateDerivedAQI ex_str ex_str [ex_failed, ex_no_time]) = 0
   \<and> sources (calculateDerivedAQI ex_str ex_str [ex_failed, ex_no_time]) = []"
  using calculateDerivedAQI_no_data [of "[ex_failed, ex_no_time]" ex_str ex_str]
  by (simp add: usable_def ex_defs)

section \<open>Weights: claim C2\<close>



section \<open>Confidence: claim C10\<close>

text \<open>
  C10. With at least one usable reading the confidence is at least 3, so the confidence
  is 0 exactly when no reading is usable.
\<close>

theorem derived_confidence_at_least_3:
  "(filter usable rs \<noteq> [] \<longrightarrow>
      3 \<le> DerivedAQI.confidence (calculateDerivedAQI str toFixed2 rs))
   \<and> (DerivedAQI.confidence (calculateDerivedAQI str toFixed2 rs) = 0
        \<longleftrightarrow> filter usable rs = [])"
proof (cases "filter usable rs = []")
  case True
  then have "DerivedAQI.confidence (calculateDerivedAQI str toFixed2 rs) = 0"
    unfolding calculateDerivedAQI_def valid_filter_usable by simp
  with True show ?thesis by simp
next
  case False
  from confidence_lower [OF False, of str toFixed2] False show ?thesis by simp
qed

theorem derived_confidence_at_least_3_witness:
  "filter usable [ex_iot_stale, ex_failed] \<noteq> []
   \<and> DerivedAQI.confidence (calculateDerivedAQI ex_str ex_str [ex_iot_stale, ex_failed]) = 3
   \<and> DerivedAQI.confidence (calculateDerivedAQI ex_str ex_str [ex_failed]) = 0"
  using derived_confidence_at_least_3 [of "[ex_iot_stale, ex_failed]" ex_str ex_str]
        derived_confidence_at_least_3 [of "[ex_failed]" ex_str ex_str]
  by (simp add: usable_def ex_defs derived_confidence usableWeights_def readingWeight_def
        Math_round_def)

end
